theory Spec2Isabelle
  imports Complex_Main "HOL-Library.Word" "HOL-Library.Signed_Division" "HOL-Library.Log_Nat"
begin

unbundle bit_operations_syntax

section \<open>The C++ value types used by LeachControllerTimingProcedures.cpp\<close>

subsection \<open>\<^verbatim>\<open>double\<close>: IEEE 754 binary64\<close>

text \<open>
  A \<^verbatim>\<open>double\<close> is a sign, a significand and a binary exponent, or an infinity, or a NaN:
  \<open>Finite s m e\<close> stands for \<open>(-1)^s * m * 2^e\<close>. The hardware format keeps
  \<open>m < 2^53\<close> and \<open>-1074 \<le> e \<le> 971\<close>; the operations below are written for every
  \<open>m\<close> and \<open>e\<close>, and on the hardware's values they are the hardware's operations.
  The sign of a zero is kept but no operation of this file reads it.
\<close>

datatype double = Finite bool nat int | Infinity bool | NaN

text \<open>The real number a finite \<^verbatim>\<open>double\<close> stands for.\<close>

fun valof :: "double \<Rightarrow> real" where
  "valof (Finite s m e) =
     (if s then - 1 else 1) * (if 0 \<le> e then real m * 2 ^ nat e else real m / 2 ^ nat (- e))"
| "valof (Infinity s) = 0"
| "valof NaN = 0"

text \<open>The comparison \<^verbatim>\<open>a < b\<close> on doubles: false as soon as one side is a NaN.\<close>

fun dless :: "double \<Rightarrow> double \<Rightarrow> bool" where
  "dless NaN b = False"
| "dless a NaN = False"
| "dless (Infinity s) (Infinity t) = (s \<and> \<not> t)"
| "dless (Infinity s) (Finite t n f) = s"
| "dless (Finite s m e) (Infinity t) = (\<not> t)"
| "dless (Finite s m e) (Finite t n f) = (valof (Finite s m e) < valof (Finite t n f))"

text \<open>
  Rounding to nearest, ties to even: \<open>rne m k\<close> is \<open>m / 2^k\<close> rounded to an integer.
\<close>

definition rne :: "nat \<Rightarrow> nat \<Rightarrow> nat" where
  "rne m k =
     (let q = m div 2 ^ k; r = m mod 2 ^ k
      in if k = 0 then m
         else if 2 ^ (k - 1) < r \<or> (r = 2 ^ (k - 1) \<and> odd q) then q + 1 else q)"

text \<open>
  \<open>round_double s m e\<close> is the \<^verbatim>\<open>double\<close> nearest to the exact value \<open>(-1)^s * m * 2^e\<close>:
  the significand is cut to 53 bits (fewer below the smallest normal number, where the
  exponent stops at \<open>-1074\<close>), and a result of \<open>2^1024\<close> or more is an infinity.
\<close>

definition round_double :: "bool \<Rightarrow> nat \<Rightarrow> int \<Rightarrow> double" where
  "round_double s m e =
     (let k = nat (max (bitlen (int m) - 53) (- 1074 - e));
          m' = rne m k;
          e' = e + int k
      in if 1024 < bitlen (int m') + e' then Infinity s else Finite s m' e')"

text \<open>The product \<^verbatim>\<open>a * b\<close> on doubles.\<close>

fun dmul :: "double \<Rightarrow> double \<Rightarrow> double" where
  "dmul NaN b = NaN"
| "dmul a NaN = NaN"
| "dmul (Infinity s) (Infinity t) = Infinity (s \<noteq> t)"
| "dmul (Infinity s) (Finite t n f) = (if n = 0 then NaN else Infinity (s \<noteq> t))"
| "dmul (Finite s m e) (Infinity t) = (if m = 0 then NaN else Infinity (s \<noteq> t))"
| "dmul (Finite s m e) (Finite t n f) = round_double (s \<noteq> t) (m * n) (e + f)"

subsection \<open>\<^verbatim>\<open>int\<close>: 32 bits, two's complement\<close>

text \<open>
  An \<^verbatim>\<open>int\<close> is modelled by the integer it holds, between \<open>INT_MIN\<close> and \<open>INT_MAX\<close>.
  Division and remainder are C++'s (\<open>sdiv\<close>, \<open>smod\<close>: the quotient is cut towards zero).
  The only operation of this file that can leave the range is the left shift by 16,
  which keeps the low 32 bits of the product (\<open>wrap32\<close>).
\<close>

definition INT_MIN :: int where "INT_MIN = - (2 ^ 31)"
definition INT_MAX :: int where "INT_MAX = 2 ^ 31 - 1"

definition wrap32 :: "int \<Rightarrow> int" where
  "wrap32 x = signed_take_bit 31 x"

text \<open>
  The conversion \<^verbatim>\<open>(int) x\<close> of a double: the fractional part is discarded (the value is
  cut towards zero). The C++ standard leaves the conversion undefined when the cut value
  is not an \<^verbatim>\<open>int\<close>, and for infinities and NaNs: \<open>None\<close>.
\<close>

definition truncate_toward_zero :: "real \<Rightarrow> int" where
  "truncate_toward_zero x = (if 0 \<le> x then \<lfloor>x\<rfloor> else \<lceil>x\<rceil>)"

fun double_to_int :: "double \<Rightarrow> int option" where
  "double_to_int (Finite s m e) =
     (let v = truncate_toward_zero (valof (Finite s m e))
      in if INT_MIN \<le> v \<and> v \<le> INT_MAX then Some v else None)"
| "double_to_int (Infinity s) = None"
| "double_to_int NaN = None"

text \<open>The literals of the source: \<^verbatim>\<open>163\<close> (an \<^verbatim>\<open>int\<close>, converted exactly) and \<^verbatim>\<open>1000\<close>.\<close>

definition d163 :: double where "d163 = Finite False 163 0"
definition d1000 :: double where "d1000 = Finite False 1000 0"

text \<open>\<^verbatim>\<open>4.5\<close> is \<open>9 * 2^-1\<close>, exactly.\<close>

definition d4_5 :: double where "d4_5 = Finite False 9 (- 1)"

section \<open>CalculateTiming\<close>

text \<open>
  Lines 52 to 79 of \<^verbatim>\<open>LeachController::CalculateTiming\<close>, from the nanosecond count
  on: \<open>ns\<close> is the value of \<^verbatim>\<open>iTime_ns\<close>. The two folded remainders are the source's
  local variables.
\<close>

definition bigreminder :: "int \<Rightarrow> int" where
  "bigreminder ns =
     (if ns smod 320 > 160 then 320 - ns smod 320 else ns smod 320)"

definition littlereminder :: "int \<Rightarrow> int" where
  "littlereminder ns =
     (if ns smod 40 > 20 then 40 - ns smod 40 else ns smod 40)"

text \<open>The value of \<^verbatim>\<open>timing_dsp\<close> before the shift of line 77.\<close>

definition timing_dsp :: "int \<Rightarrow> int" where
  "timing_dsp ns =
     (if ns > 4000 then (ns sdiv 320) OR 0x80
      else if bigreminder ns \<le> littlereminder ns
           then (ns sdiv 320) OR 0x80
           else ns sdiv 40)"

definition CalculateTiming_ns :: "int \<Rightarrow> int" where
  "CalculateTiming_ns ns = wrap32 (push_bit 16 (timing_dsp ns))"

text \<open>
  Lines 42 to 50: the clamp at 163, the product with 1000 and the conversion to \<^verbatim>\<open>int\<close>.
  \<open>iTime_ns\<close> is the source's variable of that name. The message the clamp prints on
  the console is not part of the model.
\<close>

definition clamp163 :: "double \<Rightarrow> double" where
  "clamp163 time_in_us = (if dless d163 time_in_us then d163 else time_in_us)"

definition iTime_ns :: "double \<Rightarrow> int option" where
  "iTime_ns time_in_us = double_to_int (dmul (clamp163 time_in_us) d1000)"

definition CalculateTiming :: "double \<Rightarrow> int option" where
  "CalculateTiming time_in_us =
     (case iTime_ns time_in_us of
        None \<Rightarrow> None
      | Some ns \<Rightarrow> Some (CalculateTiming_ns ns))"

text \<open>
  The values a caller passes as a duration: a \<^verbatim>\<open>double\<close> of the hardware format that is
  finite and not negative.
\<close>

fun duration :: "double \<Rightarrow> bool" where
  "duration (Finite s m e) = (\<not> s \<and> m < 2 ^ 53 \<and> - 1074 \<le> e \<and> e \<le> 971)"
| "duration (Infinity s) = False"
| "duration NaN = False"

text \<open>The durations named in the specification. \<^verbatim>\<open>4.4\<close> is the nearest double,
  \<open>4953959590107546 * 2^-50\<close>.\<close>

definition d0 :: double where "d0 = Finite False 0 0"
definition d4_0 :: double where "d4_0 = Finite False 4 0"
definition d4_4 :: double where "d4_4 = Finite False 4953959590107546 (- 50)"
definition d10 :: double where "d10 = Finite False 10 0"
definition d164 :: double where "d164 = Finite False 164 0"

section \<open>The command transport\<close>

text \<open>
  Modelled from the spec: the board identifier \<^verbatim>\<open>TIM_ID\<close>, the command words \<^verbatim>\<open>CIT\<close>,
  \<^verbatim>\<open>SGN\<close>, \<^verbatim>\<open>CPR\<close>, \<^verbatim>\<open>CPO\<close>, \<^verbatim>\<open>DGW\<close>, \<^verbatim>\<open>OGW\<close>, \<^verbatim>\<open>RSW\<close>, \<^verbatim>\<open>SWW\<close> and the reply
  \<^verbatim>\<open>DON\<close> are macros of headers that are not among the sources (ArcDefs.h,
  LeachController.hpp). The specification calls the module id and the opcodes fixed
  symbolic constants, so they are constructors here, and gives the reply that means
  done as \<open>0x00444F4E\<close>, the value the first two procedures compare with literally.
\<close>

datatype board = TIM_ID

datatype command = CIT | SGN | CPR | CPO | DGW | OGW | RSW | SWW

definition DON :: int where "DON = 0x00444F4E"

text \<open>
  \<^verbatim>\<open>pArcDev->Command(board, command, arguments...)\<close> sends one request and returns the
  controller's reply. The device is outside the program: \<open>respond\<close> is any function
  from the requests sent so far and the present request to a reply, and \<open>sent\<close>
  records the requests in the order they were issued.
\<close>

type_synonym request = "board \<times> command \<times> int list"

record CArcDevice =
  respond :: "request list \<Rightarrow> request \<Rightarrow> int"
  sent :: "request list"

definition Command :: "CArcDevice \<Rightarrow> board \<Rightarrow> command \<Rightarrow> int list \<Rightarrow> int \<times> CArcDevice" where
  "Command dev b c args =
     (respond dev (sent dev) (b, c, args), dev\<lparr>sent := sent dev @ [(b, c, args)]\<rparr>)"

section \<open>The controller and its timing procedures\<close>

text \<open>
  Of the controller object the procedures use the field \<^verbatim>\<open>CCDParams.ItgSpeed\<close> and the
  device \<^verbatim>\<open>pArcDev\<close>. Each procedure takes the controller and returns its \<^verbatim>\<open>int\<close> result
  with the controller after the call. The procedures that call \<open>CalculateTiming\<close> have
  no result where the conversion to \<^verbatim>\<open>int\<close> has none. The messages printed on a
  failure are not part of the model.
\<close>

record CCDVariables =
  ItgSpeed :: int

record LeachController =
  CCDParams :: CCDVariables
  pArcDev :: CArcDevice

definition ApplyGainAndSpeed :: "LeachController \<Rightarrow> int \<Rightarrow> int \<Rightarrow> int \<times> LeachController" where
  "ApplyGainAndSpeed this gain speed =
     (let (dReply, dev) = Command (pArcDev this) TIM_ID SGN [gain, speed]
      in (if dReply = 0x00444F4E then 0 else - 1, this\<lparr>pArcDev := dev\<rparr>))"

text \<open>The result of \<open>ApplyGainAndSpeed\<close> is dropped at line 108, as in the source.\<close>

definition ApplyNewIntegralTimeAndGain ::
    "LeachController \<Rightarrow> double \<Rightarrow> int \<Rightarrow> (int \<times> LeachController) option" where
  "ApplyNewIntegralTimeAndGain this integralTime gain =
     (case CalculateTiming integralTime of
        None \<Rightarrow> None
      | Some timing \<Rightarrow>
          (let this1 = this\<lparr>CCDParams :=
                         (CCDParams this)\<lparr>ItgSpeed := (if dless integralTime d4_5 then 1 else 0)\<rparr>\<rparr>;
               (unused, this2) = ApplyGainAndSpeed this1 gain (ItgSpeed (CCDParams this1));
               (dReply, dev) = Command (pArcDev this2) TIM_ID CIT [timing]
           in Some (if dReply = 0x00444F4E then 0 else - 1, this2\<lparr>pArcDev := dev\<rparr>)))"

definition ApplyNewPedestalIntegralWait ::
    "LeachController \<Rightarrow> double \<Rightarrow> (int \<times> LeachController) option" where
  "ApplyNewPedestalIntegralWait this pedestalWaitTime =
     (case CalculateTiming pedestalWaitTime of
        None \<Rightarrow> None
      | Some timing \<Rightarrow>
          (let (dReply, dev) = Command (pArcDev this) TIM_ID CPR [timing]
           in Some (if dReply = DON then 0 else - 1, this\<lparr>pArcDev := dev\<rparr>)))"

definition ApplyNewSignalIntegralWait ::
    "LeachController \<Rightarrow> double \<Rightarrow> (int \<times> LeachController) option" where
  "ApplyNewSignalIntegralWait this signalWaitTime =
     (case CalculateTiming signalWaitTime of
        None \<Rightarrow> None
      | Some timing \<Rightarrow>
          (let (dReply, dev) = Command (pArcDev this) TIM_ID CPO [timing]
           in Some (if dReply = DON then 0 else - 1, this\<lparr>pArcDev := dev\<rparr>)))"

definition ApplyDGWidth :: "LeachController \<Rightarrow> double \<Rightarrow> (int \<times> LeachController) option" where
  "ApplyDGWidth this newDGWidth =
     (case CalculateTiming newDGWidth of
        None \<Rightarrow> None
      | Some timing \<Rightarrow>
          (let (dReply, dev) = Command (pArcDev this) TIM_ID DGW [timing]
           in Some (if dReply = DON then 0 else - 1, this\<lparr>pArcDev := dev\<rparr>)))"

definition ApplyOGWidth :: "LeachController \<Rightarrow> double \<Rightarrow> (int \<times> LeachController) option" where
  "ApplyOGWidth this newOGWidth =
     (case CalculateTiming newOGWidth of
        None \<Rightarrow> None
      | Some timing \<Rightarrow>
          (let (dReply, dev) = Command (pArcDev this) TIM_ID OGW [timing]
           in Some (if dReply = DON then 0 else - 1, this\<lparr>pArcDev := dev\<rparr>)))"

definition ApplySkippingRGWidth ::
    "LeachController \<Rightarrow> double \<Rightarrow> (int \<times> LeachController) option" where
  "ApplySkippingRGWidth this newRGWidth =
     (case CalculateTiming newRGWidth of
        None \<Rightarrow> None
      | Some timing \<Rightarrow>
          (let (dReply, dev) = Command (pArcDev this) TIM_ID RSW [timing]
           in Some (if dReply = DON then 0 else - 1, this\<lparr>pArcDev := dev\<rparr>)))"

definition ApplySummingWellWidth ::
    "LeachController \<Rightarrow> double \<Rightarrow> (int \<times> LeachController) option" where
  "ApplySummingWellWidth this newSWWidth =
     (case CalculateTiming newSWWidth of
        None \<Rightarrow> None
      | Some timing \<Rightarrow>
          (let (dReply, dev) = Command (pArcDev this) TIM_ID SWW [timing]
           in Some (if dReply = DON then 0 else - 1, this\<lparr>pArcDev := dev\<rparr>)))"

section \<open>Inputs of the examples\<close>

text \<open>More durations: 41 microseconds, and \<open>3/64\<close> and \<open>191/4096\<close> of a microsecond
  (46.875 ns and about 46.63 ns).\<close>

definition d41 :: double where "d41 = Finite False 41 0"

text \<open>\<open>1/1024\<close> of a microsecond, a little less than one nanosecond.\<close>

definition d1_1024 :: double where "d1_1024 = Finite False 1 (- 10)"

text \<open>
  A device that answers every request with the reply that means done, one that answers
  \<open>0xDEAD\<close> to the gain and speed request and done to every other request, and one that
  answers \<open>0xDEAD\<close> to every request.
\<close>

definition acknowledging :: "request list \<Rightarrow> request \<Rightarrow> int" where
  "acknowledging history req = 0x00444F4E"

definition gain_rejected :: "request list \<Rightarrow> request \<Rightarrow> int" where
  "gain_rejected history req =
     (case req of (b, c, args) \<Rightarrow> if c = SGN then 0xDEAD else 0x00444F4E)"

definition rejecting :: "request list \<Rightarrow> request \<Rightarrow> int" where
  "rejecting history req = 0xDEAD"

text \<open>A controller in front of such a device, before any request, with the slow integrator.\<close>

definition controller :: "(request list \<Rightarrow> request \<Rightarrow> int) \<Rightarrow> LeachController" where
  "controller f = \<lparr>CCDParams = \<lparr>ItgSpeed = 0\<rparr>, pArcDev = \<lparr>respond = f, sent = []\<rparr>\<rparr>"

section \<open>Rounding and conversion\<close>

lemma bitlen_le_53: "m < 2 ^ 53 \<Longrightarrow> bitlen (int m) \<le> 53"
  by (simp add: bitlen_le_iff_power)

lemma rne_0: "rne m 0 = m"
  by (simp add: rne_def)

text \<open>A value that fits the format is not changed by rounding.\<close>

lemma round_double_exact:
  assumes "m < 2 ^ 53" and "- 1074 \<le> e" and "e \<le> 971"
  shows "round_double s m e = Finite s m e"
proof -
  have b: "bitlen (int m) \<le> 53" using assms(1) by (rule bitlen_le_53)
  have k: "nat (max (bitlen (int m) - 53) (- 1074 - e)) = 0"
    using b assms(2) by simp
  show ?thesis
    unfolding round_double_def Let_def k
    using b assms(3) by (simp add: rne_0)
qed

text \<open>Rounding a significand never more than doubles the value.\<close>

lemma rne_le_double: "rne m k * 2 ^ k \<le> 2 * m"
proof (cases "k = 0")
  case True
  then show ?thesis by (simp add: rne_0)
next
  case False
  define q where "q = m div 2 ^ k"
  define r where "r = m mod 2 ^ k"
  have m: "m = q * 2 ^ k + r"
    unfolding q_def r_def by (rule div_mult_mod_eq [symmetric])
  have p: "(2::nat) ^ k = 2 * 2 ^ (k - 1)"
    using False by (cases k) simp_all
  show ?thesis
  proof (cases "2 ^ (k - 1) < r \<or> (r = 2 ^ (k - 1) \<and> odd q)")
    case True
    then have r: "2 ^ (k - 1) \<le> r" by auto
    have "rne m k = q + 1"
      using True False by (auto simp: rne_def Let_def q_def r_def)
    then have "rne m k * 2 ^ k = q * 2 ^ k + 2 ^ k" by (simp add: algebra_simps)
    also have "\<dots> \<le> q * 2 ^ k + 2 * r" using r p by simp
    also have "\<dots> \<le> 2 * m" using m by simp
    finally show ?thesis .
  next
    case down: False
    then have "rne m k = q"
      using False by (auto simp: rne_def Let_def q_def r_def)
    then show ?thesis using m by simp
  qed
qed

lemma rne_pos: "2 ^ k \<le> m \<Longrightarrow> 0 < rne m k"
proof -
  assume a: "2 ^ k \<le> m"
  have "1 \<le> m div 2 ^ k" using a by (simp add: div_greater_zero_iff Suc_le_eq)
  then show ?thesis by (auto simp: rne_def Let_def)
qed

lemma valof_powr:
  "valof (Finite s m e) = (if s then - 1 else 1) * (real m * 2 powr real_of_int e)"
proof (cases "0 \<le> e")
  case True
  then have "2 powr real_of_int e = (2::real) ^ nat e"
    by (simp add: powr_realpow [symmetric])
  then show ?thesis using True by simp
next
  case False
  then have "2 powr real_of_int e = 1 / (2::real) ^ nat (- e)"
    by (simp add: powr_realpow [symmetric] powr_minus_divide [symmetric])
  then show ?thesis using False by simp
qed

lemma valof_nonneg: "0 \<le> valof (Finite False m e)"
  by simp

text \<open>
  A product of at most \<open>2^30\<close> is rounded to a finite double (no overflow to an
  infinity) of at most twice the exact value.
\<close>

lemma round_double_small:
  assumes e: "- 1074 \<le> e" "e \<le> 971"
    and x: "real M * 2 powr real_of_int e \<le> 2 ^ 30"
  shows "\<exists>m' e'. round_double s M e = Finite s m' e' \<and>
           real m' * 2 powr real_of_int e' \<le> 2 * (real M * 2 powr real_of_int e)"
proof -
  define k where "k = nat (max (bitlen (int M) - 53) (- 1074 - e))"
  define m' where "m' = rne M k"
  define e' where "e' = e + int k"
  have "real m' * 2 powr real_of_int e' = real (m' * 2 ^ k) * 2 powr real_of_int e"
    by (simp add: e'_def powr_add powr_realpow)
  also have "\<dots> \<le> real (2 * M) * 2 powr real_of_int e"
    unfolding m'_def
    by (intro mult_right_mono of_nat_mono rne_le_double) simp
  finally have val: "real m' * 2 powr real_of_int e' \<le> 2 * (real M * 2 powr real_of_int e)"
    by simp
  have no_overflow: "bitlen (int m') + e' \<le> 1024"
  proof (cases "m' = 0")
    case True
    have "k = 0"
    proof (rule ccontr)
      assume "k \<noteq> 0"
      then have kb: "int k = bitlen (int M) - 53" and kpos: "0 < k"
        using e(1) by (auto simp: k_def max_def split: if_splits)
      then have "0 < bitlen (int M)" by simp
      then have Mpos: "0 < int M"
        using bitlen_eq_zero_iff [of "int M"] by (cases "M = 0") simp_all
      have "2 ^ nat (bitlen (int M) - 1) \<le> int M"
        using bitlen_bounds [OF Mpos] by simp
      moreover have "nat (bitlen (int M) - 1) = k + 52"
        using kb by simp
      ultimately have "(2::int) ^ (k + 52) \<le> int M" by simp
      moreover have "(2::int) ^ k \<le> 2 ^ (k + 52)"
        by (rule power_increasing) simp_all
      ultimately have "(2::int) ^ k \<le> int M" by linarith
      then have "2 ^ k \<le> M"
        by (metis of_nat_le_iff of_nat_numeral of_nat_power)
      then have "0 < m'" unfolding m'_def by (rule rne_pos)
      with True show False by simp
    qed
    then show ?thesis using True e(2) by (simp add: e'_def)
  next
    case False
    then have mpos: "0 < int m'" by simp
    have b1: "1 \<le> bitlen (int m')"
      using bitlen_eq_zero_iff [of "int m'"] bitlen_nonneg [of "int m'"] mpos
      by linarith
    have "2 ^ nat (bitlen (int m') - 1) \<le> int m'"
      using bitlen_bounds [OF mpos] by simp
    then have "real_of_int (2 ^ nat (bitlen (int m') - 1)) \<le> real_of_int (int m')"
      by (rule of_int_le_iff [THEN iffD2])
    then have "2 powr real_of_int (bitlen (int m') - 1) \<le> real m'"
      using b1 by (simp add: powr_realpow [symmetric])
    then have "2 powr real_of_int (bitlen (int m') - 1) * 2 powr real_of_int e'
                 \<le> real m' * 2 powr real_of_int e'"
      by (rule mult_right_mono) simp
    also have "\<dots> \<le> 2 * 2 ^ 30" using val x by linarith
    also have "\<dots> = 2 powr 31" by simp
    finally have "2 powr (real_of_int (bitlen (int m') - 1) + real_of_int e') \<le> 2 powr 31"
      by (simp add: powr_add)
    then have "real_of_int (bitlen (int m') - 1) + real_of_int e' \<le> 31"
      by (rule powr_le_cancel_iff [THEN iffD1, rotated]) simp
    then have "bitlen (int m') - 1 + e' \<le> 31"
      by linarith
    then show ?thesis by simp
  qed
  have "round_double s M e = Finite s m' e'"
    using no_overflow
    by (simp add: round_double_def Let_def k_def [symmetric] m'_def [symmetric] e'_def [symmetric])
  with val show ?thesis by blast
qed

lemma clamp163_duration:
  assumes "duration d"
  shows "duration (clamp163 d) \<and> valof (clamp163 d) \<le> 163"
proof (cases d)
  case (Finite s m e)
  then show ?thesis using assms by (simp add: clamp163_def d163_def)
qed (use assms in simp_all)

lemma clamp163_small: "duration d \<Longrightarrow> valof d \<le> 163 \<Longrightarrow> clamp163 d = d"
  by (cases d) (simp_all add: clamp163_def d163_def)

lemma dmul_1000:
  assumes "duration d" and "valof d \<le> 163"
  shows "\<exists>m' e'. dmul d d1000 = Finite False m' e' \<and>
           valof (Finite False m' e') \<le> 2 * (valof d * 1000)"
proof (cases d)
  case (Finite s m e)
  with assms(1) have s: "\<not> s" and e: "- 1074 \<le> e" "e \<le> 971" by simp_all
  have v: "valof d = real m * 2 powr real_of_int e"
    using s unfolding Finite valof_powr by simp
  have "real (m * 1000) * 2 powr real_of_int e = valof d * 1000"
    by (simp add: v)
  also have "\<dots> \<le> 2 ^ 30" using assms(2) by simp
  finally have x: "real (m * 1000) * 2 powr real_of_int e \<le> 2 ^ 30" .
  from round_double_small [OF e x, of False]
  obtain m' e' where r: "round_double False (m * 1000) e = Finite False m' e'"
    and b: "real m' * 2 powr real_of_int e' \<le> 2 * (real (m * 1000) * 2 powr real_of_int e)"
    by blast
  have "dmul d d1000 = Finite False m' e'"
    using s r by (simp add: Finite d1000_def)
  moreover have "valof (Finite False m' e') \<le> 2 * (valof d * 1000)"
    using b unfolding valof_powr v by simp
  ultimately show ?thesis by blast
qed (use assms in simp_all)

lemma double_to_int_floor:
  assumes "valof (Finite False m e) \<le> 2 ^ 30"
  shows "double_to_int (Finite False m e) = Some \<lfloor>valof (Finite False m e)\<rfloor>"
proof -
  have nn: "0 \<le> valof (Finite False m e)" by (rule valof_nonneg)
  then have "0 \<le> \<lfloor>valof (Finite False m e)\<rfloor>" by simp
  moreover have "\<lfloor>valof (Finite False m e)\<rfloor> \<le> 2 ^ 30"
    using assms by (simp add: floor_le_iff)
  ultimately show ?thesis
    using nn by (simp add: truncate_toward_zero_def INT_MIN_def INT_MAX_def Let_def del: valof.simps)
qed

text \<open>
  For every duration the conversion of line 50 is defined: the nanosecond count is the
  product of line 49, as the double arithmetic gives it, without its fractional part.
\<close>

lemma iTime_ns_duration:
  assumes "duration d"
  shows "\<exists>ns. iTime_ns d = Some ns \<and> 0 \<le> ns \<and>
           ns = \<lfloor>valof (dmul (clamp163 d) d1000)\<rfloor> \<and>
           0 \<le> valof (dmul (clamp163 d) d1000) \<and>
           valof (dmul (clamp163 d) d1000) \<le> 2 * (valof (clamp163 d) * 1000)"
proof -
  from clamp163_duration [OF assms]
  have c: "duration (clamp163 d)" "valof (clamp163 d) \<le> 163" by simp_all
  from dmul_1000 [OF c] obtain m' e'
    where p: "dmul (clamp163 d) d1000 = Finite False m' e'"
      and b: "valof (Finite False m' e') \<le> 2 * (valof (clamp163 d) * 1000)"
    by blast
  have "valof (Finite False m' e') \<le> 2 ^ 30" using b c(2) by simp
  then have "double_to_int (Finite False m' e') = Some \<lfloor>valof (Finite False m' e')\<rfloor>"
    by (rule double_to_int_floor)
  moreover have "0 \<le> \<lfloor>valof (Finite False m' e')\<rfloor>"
    using valof_nonneg [of m' e'] by simp
  ultimately show ?thesis
    using b valof_nonneg [of m' e'] unfolding iTime_ns_def p by simp
qed

lemma CalculateTiming_duration:
  assumes "duration d"
  shows "\<exists>ns. iTime_ns d = Some ns \<and> 0 \<le> ns \<and> CalculateTiming d = Some (CalculateTiming_ns ns)"
  using iTime_ns_duration [OF assms] by (auto simp: CalculateTiming_def)

section \<open>Integer arithmetic of CalculateTiming\<close>

lemma sdiv_nonneg: "0 \<le> a \<Longrightarrow> 0 < b \<Longrightarrow> a sdiv b = a div (b::int)"
  by (simp add: signed_divide_int_def sgn_if)

lemma smod_nonneg: "0 \<le> a \<Longrightarrow> 0 < b \<Longrightarrow> a smod b = a mod (b::int)"
  by (simp add: signed_modulo_int_def sgn_if)

lemma timing_dsp_coarse: "4000 < ns \<Longrightarrow> timing_dsp ns = (ns div 320) OR 0x80"
  by (simp add: timing_dsp_def sdiv_nonneg)

lemma wrap32_byte:
  assumes "0 \<le> b" "b < 256"
  shows "wrap32 (push_bit 16 b) = push_bit 16 b"
proof -
  have "push_bit 16 b = b * 65536" by (simp add: push_bit_eq_mult)
  then have "- (2 ^ 31) \<le> push_bit 16 b" "push_bit 16 b < 2 ^ 31"
    using assms by simp_all
  then show ?thesis unfolding wrap32_def by (rule signed_take_bit_int_eq_self)
qed

lemma coarse_byte:
  assumes "0 \<le> (ns::int)" "ns < 81920"
  shows "0 \<le> (ns div 320) OR 0x80 \<and> (ns div 320) OR 0x80 < 256"
proof -
  have q: "0 \<le> ns div 320" "ns div 320 < 2 ^ 8" using assms by simp_all
  have "(ns div 320) OR 0x80 < 2 ^ 8"
    using q by (intro OR_upper) simp_all
  moreover have "0 \<le> (ns div 320) OR 0x80" using q by simp
  ultimately show ?thesis by simp
qed

lemma byte_bits:
  assumes "0 \<le> b" "b < 256"
  shows "take_bit 16 (push_bit 16 b) = (0::int) \<and> drop_bit 24 (push_bit 16 b) = (0::int)"
proof -
  have "drop_bit 24 (push_bit 16 b) = b * 65536 div 16777216"
    by (simp add: drop_bit_eq_div push_bit_eq_mult)
  also have "\<dots> = 0" using assms by (intro div_pos_pos_trivial) simp_all
  finally show ?thesis by (simp add: take_bit_push_bit)
qed

text \<open>The definitions a concrete call of \<open>CalculateTiming\<close> is evaluated with.\<close>

lemmas CalculateTiming_eval =
  CalculateTiming_def iTime_ns_def clamp163_def d163_def d1000_def round_double_exact
  truncate_toward_zero_def INT_MIN_def INT_MAX_def CalculateTiming_ns_def timing_dsp_def
  bigreminder_def littlereminder_def wrap32_def signed_divide_int_def signed_modulo_int_def

lemma flag_bit: "bit (x OR (0x80::int)) 7"
proof -
  have "bit ((2::int) ^ 7) 7" by (simp only: bit_exp_iff) simp
  then have "bit (0x80::int) 7" by simp
  then show ?thesis by (simp only: bit_or_iff) simp
qed

lemma CalculateTiming_ns_0_1: "CalculateTiming_ns 0 = 0x800000 \<and> CalculateTiming_ns 1 = 0x800000"
  by (simp add: CalculateTiming_eval)

text \<open>
  A product that does not fit the format is rounded: \<^verbatim>\<open>4.4\<close> is a little more than 4.4, its
  exact product with 1000 has 63 bits, and the nearest double is 4400.
\<close>

lemma bitlen_63: "bitlen 4953959590107546000 = 63"
  by (rule antisym) (simp_all add: bitlen_le_iff_power bitlen_ge_iff_power)

lemma rne_4_4: "rne 4953959590107546000 10 = 4837851162214400"
  by (simp add: rne_def)

lemma dmul_4_4: "dmul d4_4 d1000 = Finite False 4837851162214400 (- 40)"
proof -
  have "bitlen 4837851162214400 \<le> 53"
    by (simp add: bitlen_le_iff_power)
  then show ?thesis
    by (simp add: d4_4_def d1000_def round_double_def bitlen_63 rne_4_4)
qed

lemma CalculateTiming_4_4: "iTime_ns d4_4 = Some 4400 \<and> CalculateTiming d4_4 = Some 0x8D0000"
proof -
  have c: "clamp163 d4_4 = d4_4" by (simp add: clamp163_def d163_def d4_4_def)
  have "iTime_ns d4_4 = Some 4400"
    unfolding iTime_ns_def c dmul_4_4
    by (simp add: truncate_toward_zero_def INT_MIN_def INT_MAX_def)
  then show ?thesis
    by (simp add: CalculateTiming_def CalculateTiming_ns_def timing_dsp_def wrap32_def
        signed_divide_int_def)
qed

section \<open>The claims about CalculateTiming\<close>

text \<open>
  Claim C2. For every duration between 0 and 163 microseconds the step count, the value
  before the regime flag is OR-ed in, is at most 127 and does not reach the flag bit or
  the bits above it.

  The procedure does not keep to this. The clamp of line 42 admits 163 microseconds,
  where \<open>iTime_ns / 320\<close> is 509: the OR with \<open>0x80\<close> leaves 509, and the shifted
  code \<open>0x1FD0000\<close> has bit 24 set, outside the timing byte. At 41 microseconds the
  quotient is 128, which is the flag bit itself: the code is \<open>0x800000\<close>, the code of
  a duration of 0. The header comment of the procedure describes a timing of 8 bits with
  a count in 7 of them.
\<close>

theorem step_count_exceeds_127:
  "duration d163 \<and> \<not> dless d163 d163 \<and> iTime_ns d163 = Some 163000 \<and>
   163000 sdiv 320 = (509::int) \<and> timing_dsp 163000 = 509 \<and>
   CalculateTiming d163 = Some 0x1FD0000 \<and> drop_bit 24 (0x1FD0000::int) = 1 \<and>
   duration d41 \<and> \<not> dless d163 d41 \<and> iTime_ns d41 = Some 41000 \<and>
   41000 sdiv 320 = (128::int) \<and> timing_dsp 41000 = 128 \<and>
   CalculateTiming d41 = Some 0x800000 \<and> CalculateTiming d0 = Some 0x800000"
  by (simp add: CalculateTiming_eval d41_def d0_def drop_bit_eq_div)

text \<open>
  Below 40960 ns the quotients do stay within 7 bits; 40960 ns is the first count where
  the coarse quotient is 128.
\<close>

lemma step_count_below_40960:
  assumes "0 \<le> (ns::int)" and "ns < 40960"
  shows "ns sdiv 320 \<le> 127 \<and> (ns \<le> 4000 \<longrightarrow> ns sdiv 40 \<le> 127)"
proof -
  have "ns div 320 < 128" using assms by simp
  moreover have "ns div 40 < 128" if "ns \<le> 4000" using that by simp
  ultimately show ?thesis using assms by (auto simp: sdiv_nonneg)
qed

lemma step_count_at_40960: "40960 sdiv 320 = (128::int) \<and> timing_dsp 40960 = 128"
  by (simp add: CalculateTiming_eval)

text \<open>
  Claim C3, as stated: at 4.0 microseconds (4000 ns) the coarse remainder is 0, the
  coarse regime is chosen, the step is 12 and the code is \<open>0x8C0000\<close>. It fails:
  4000 is 12 * 320 + 160, so the coarse remainder is 160 and not 0.
\<close>

theorem quantize_4us_counterexample:
  "iTime_ns d4_0 = Some 4000 \<and> bigreminder 4000 \<noteq> 0 \<and>
   \<not> bigreminder 4000 \<le> littlereminder 4000 \<and>
   timing_dsp 4000 \<noteq> 0x8C \<and> CalculateTiming d4_0 \<noteq> Some 0x8C0000"
  by (simp add: CalculateTiming_eval d4_0_def)

text \<open>
  Claim C3, amended: 4.0 microseconds are 4000 ns, which is not above 4000, so the
  remainders are compared. The coarse remainder is 160 and the fine remainder is 0, so
  the fine regime is chosen: the step is 4000 / 40 = 100, the timing byte \<open>0x64\<close> with
  the regime flag unset, the code \<open>0x640000\<close>.
\<close>

theorem quantize_4us_fine:
  "iTime_ns d4_0 = Some 4000 \<and> \<not> (4000::int) > 4000 \<and>
   4000 smod 320 = (160::int) \<and> bigreminder 4000 = 160 \<and> littlereminder 4000 = 0 \<and>
   timing_dsp 4000 = 4000 sdiv 40 \<and> timing_dsp 4000 = 100 \<and>
   CalculateTiming d4_0 = Some 0x640000"
  by (simp add: CalculateTiming_eval d4_0_def)

text \<open>
  Claim C4. Whenever the nanosecond count is above 4000 the coarse regime is used: the
  timing byte is \<open>floor(ns/320) | 0x80\<close> and the code is that byte shifted left by 16,
  with every other bit zero; 10.0 microseconds give the step 31, the byte \<open>0x9F\<close> and
  the code \<open>0x9F0000\<close>.

  The procedure computes \<open>(iTime_ns / 320 | 0x80) << 16\<close> for every such count, but the
  value it shifts is a byte only below 81920 ns. The clamp of line 42 admits 163000 ns:
  there the value is 509 and the code has a bit set above bit 23, against the header
  comment's timing of 8 bits. It is the defect of claim C2.
\<close>

theorem coarse_code_exceeds_byte:
  "iTime_ns d163 = Some 163000 \<and> (4000::int) < 163000 \<and>
   CalculateTiming d163 = Some (push_bit 16 ((163000 div 320) OR 0x80)) \<and>
   \<not> (163000 div 320) OR 0x80 < (256::int) \<and>
   drop_bit 24 (push_bit 16 ((163000 div 320) OR 0x80) :: int) \<noteq> 0"
  by (simp add: CalculateTiming_eval drop_bit_eq_div push_bit_eq_mult)

text \<open>
  What the procedure does keep to: whenever the nanosecond count \<open>ns\<close> is above 4000 and
  below 81920, the value before the shift is \<open>floor(ns/320) | 0x80\<close>, it is a byte with
  the regime flag (bit 7) set, and the code is that byte shifted left by 16, with bits 15
  to 0 and the bits from 24 on all zero.
\<close>

theorem coarse_regime:
  assumes "iTime_ns d = Some ns" and "4000 < ns" and "ns < 81920"
  shows "timing_dsp ns = (ns div 320) OR 0x80 \<and>
         bit (timing_dsp ns) 7 \<and> 0 \<le> timing_dsp ns \<and> timing_dsp ns < 256 \<and>
         CalculateTiming d = Some (push_bit 16 (timing_dsp ns)) \<and>
         take_bit 16 (push_bit 16 (timing_dsp ns)) = 0 \<and>
         drop_bit 24 (push_bit 16 (timing_dsp ns)) = 0"
proof -
  have t: "timing_dsp ns = (ns div 320) OR 0x80"
    using assms(2) by (rule timing_dsp_coarse)
  have b: "0 \<le> timing_dsp ns" "timing_dsp ns < 256"
    using coarse_byte [of ns] assms(2,3) unfolding t by simp_all
  have f: "bit (timing_dsp ns) 7"
    unfolding t by (rule flag_bit)
  have c: "CalculateTiming d = Some (push_bit 16 (timing_dsp ns))"
    using assms(1) wrap32_byte [OF b] by (simp add: CalculateTiming_def CalculateTiming_ns_def)
  show ?thesis using t b f c byte_bits [OF b] by simp
qed

text \<open>
  The instance of the claim: 10.0 microseconds are 10000 ns, the step is
  \<open>floor(10000/320) = 31\<close>, the byte \<open>0x9F\<close> and the code \<open>0x9F0000\<close>.
\<close>

theorem coarse_regime_10us:
  "iTime_ns d10 = Some 10000 \<and> 10000 div 320 = (31::int) \<and> timing_dsp 10000 = 0x9F \<and>
   CalculateTiming d10 = Some 0x9F0000"
proof -
  have n: "iTime_ns d10 = Some 10000"
    by (simp add: CalculateTiming_eval d10_def)
  have v: "(10000 div 320) OR 0x80 = (0x9F::int)" by simp
  from coarse_regime [OF n] v show ?thesis
    using n by (simp add: push_bit_eq_mult)
qed



text \<open>
  Claim C6. A duration above 163 microseconds is replaced by 163 and a code is still
  returned: every such input, 164.0 and an infinite one among them, gets the code of
  163.0.
\<close>

theorem clamp_at_163:
  assumes "dless d163 d"
  shows "clamp163 d = d163 \<and> iTime_ns d = Some 163000 \<and>
         CalculateTiming d = CalculateTiming d163 \<and> CalculateTiming d = Some 0x1FD0000"
proof -
  have c: "clamp163 d = d163" using assms by (simp add: clamp163_def)
  have s: "\<not> dless d163 d163" by (simp add: d163_def)
  have n: "iTime_ns d = iTime_ns d163"
    using c s by (simp add: iTime_ns_def clamp163_def)
  have "iTime_ns d163 = Some 163000" by (simp add: CalculateTiming_eval)
  moreover have "CalculateTiming d163 = Some 0x1FD0000" by (simp add: CalculateTiming_eval)
  ultimately show ?thesis using c n by (simp add: CalculateTiming_def)
qed

theorem clamp_at_163_witness:
  "dless d163 d164 \<and> CalculateTiming d164 = CalculateTiming d163 \<and>
   CalculateTiming d164 = Some 0x1FD0000 \<and>
   dless d163 (Infinity False) \<and> CalculateTiming (Infinity False) = CalculateTiming d163"
proof -
  have a: "dless d163 d164" by (simp add: d163_def d164_def)
  have b: "dless d163 (Infinity False)" by (simp add: d163_def)
  from clamp_at_163 [OF a] clamp_at_163 [OF b] a b show ?thesis by blast
qed

text \<open>
  Claim C10. For every duration that is not negative and whose nanosecond count is 0
  (the duration times 1000 is below 1; the duration 0 is one of them), the code is
  \<open>0x800000\<close>: at the count 0 both folded remainders are 0, the tie goes to the coarse
  regime, the step is 0 and only the regime flag is left.

  The hypothesis is either that the exact product is below 1 or that the count computed
  by the procedure is 0.
\<close>

theorem zero_nanoseconds:
  assumes "duration d" and "valof d * 1000 < 1 \<or> iTime_ns d = Some 0"
  shows "CalculateTiming d = Some 0x800000 \<and>
         bigreminder 0 = 0 \<and> littlereminder 0 = 0 \<and> timing_dsp 0 = 0x80"
proof -
  have r: "bigreminder 0 = 0 \<and> littlereminder 0 = 0 \<and> timing_dsp 0 = 0x80"
    by (simp add: CalculateTiming_eval)
  have "CalculateTiming d = Some 0x800000"
    using assms(2)
  proof
    assume z: "iTime_ns d = Some 0"
    then show ?thesis using CalculateTiming_ns_0_1 by (simp add: CalculateTiming_def)
  next
    assume x: "valof d * 1000 < 1"
    have nn: "0 \<le> valof d" using assms(1) by (cases d) simp_all
    have "valof d \<le> 163"
    proof (rule ccontr)
      assume "\<not> valof d \<le> 163"
      then have "163 * 1000 < valof d * 1000" by simp
      with x show False by simp
    qed
    then have c: "clamp163 d = d" using assms(1) by (simp add: clamp163_small)
    from iTime_ns_duration [OF assms(1)] obtain ns where
      n: "iTime_ns d = Some ns" "0 \<le> ns" "ns = \<lfloor>valof (dmul d d1000)\<rfloor>"
      and b: "valof (dmul d d1000) \<le> 2 * (valof d * 1000)"
      unfolding c by blast
    have "valof (dmul d d1000) < 2" using b x by linarith
    then have "ns < 2" using n(3) by (simp add: floor_less_iff)
    then have "ns = 0 \<or> ns = 1" using n(2) by linarith
    then have "CalculateTiming_ns ns = 0x800000"
      using CalculateTiming_ns_0_1 by auto
    then show ?thesis using n(1) by (simp add: CalculateTiming_def)
  qed
  with r show ?thesis by simp
qed

theorem zero_nanoseconds_witness:
  "duration d0 \<and> iTime_ns d0 = Some 0 \<and> CalculateTiming d0 = Some 0x800000 \<and>
   duration d1_1024 \<and> 0 < valof d1_1024 \<and> valof d1_1024 * 1000 < 1 \<and>
   CalculateTiming d1_1024 = Some 0x800000"
proof -
  have a: "duration d0" "iTime_ns d0 = Some 0"
    by (simp_all add: d0_def CalculateTiming_eval)
  have b: "duration d1_1024" "0 < valof d1_1024" "valof d1_1024 * 1000 < 1"
    by (simp_all add: d1_1024_def)
  from zero_nanoseconds [OF a(1)] zero_nanoseconds [OF b(1)] a b show ?thesis by simp
qed

section \<open>The claims about the procedures that send commands\<close>

lemma dless_4_5: "duration t \<Longrightarrow> dless t d4_5 = (valof t < 9 / 2)"
  by (cases t) (simp_all add: d4_5_def)

lemma ApplyNewIntegralTimeAndGain_Some:
  assumes "CalculateTiming t = Some timing"
  shows "ApplyNewIntegralTimeAndGain c t gain =
     Some (if respond (pArcDev c)
                (sent (pArcDev c) @ [(TIM_ID, SGN, [gain, if dless t d4_5 then 1 else 0])])
                (TIM_ID, CIT, [timing]) = 0x00444F4E then 0 else - 1,
           c\<lparr>CCDParams := (CCDParams c)\<lparr>ItgSpeed := (if dless t d4_5 then 1 else 0)\<rparr>,
             pArcDev := (pArcDev c)\<lparr>sent := sent (pArcDev c) @
                [(TIM_ID, SGN, [gain, if dless t d4_5 then 1 else 0]), (TIM_ID, CIT, [timing])]\<rparr>\<rparr>)"
  using assms
  by (simp add: ApplyNewIntegralTimeAndGain_def ApplyGainAndSpeed_def Command_def Let_def)

lemma single_command_Some:
  assumes "CalculateTiming d = Some timing"
  shows "ApplyNewPedestalIntegralWait c d =
           Some (if respond (pArcDev c) (sent (pArcDev c)) (TIM_ID, CPR, [timing]) = DON then 0 else - 1,
                 c\<lparr>pArcDev := (pArcDev c)\<lparr>sent := sent (pArcDev c) @ [(TIM_ID, CPR, [timing])]\<rparr>\<rparr>)"
    and "ApplyNewSignalIntegralWait c d =
           Some (if respond (pArcDev c) (sent (pArcDev c)) (TIM_ID, CPO, [timing]) = DON then 0 else - 1,
                 c\<lparr>pArcDev := (pArcDev c)\<lparr>sent := sent (pArcDev c) @ [(TIM_ID, CPO, [timing])]\<rparr>\<rparr>)"
    and "ApplyDGWidth c d =
           Some (if respond (pArcDev c) (sent (pArcDev c)) (TIM_ID, DGW, [timing]) = DON then 0 else - 1,
                 c\<lparr>pArcDev := (pArcDev c)\<lparr>sent := sent (pArcDev c) @ [(TIM_ID, DGW, [timing])]\<rparr>\<rparr>)"
    and "ApplyOGWidth c d =
           Some (if respond (pArcDev c) (sent (pArcDev c)) (TIM_ID, OGW, [timing]) = DON then 0 else - 1,
                 c\<lparr>pArcDev := (pArcDev c)\<lparr>sent := sent (pArcDev c) @ [(TIM_ID, OGW, [timing])]\<rparr>\<rparr>)"
    and "ApplySkippingRGWidth c d =
           Some (if respond (pArcDev c) (sent (pArcDev c)) (TIM_ID, RSW, [timing]) = DON then 0 else - 1,
                 c\<lparr>pArcDev := (pArcDev c)\<lparr>sent := sent (pArcDev c) @ [(TIM_ID, RSW, [timing])]\<rparr>\<rparr>)"
    and "ApplySummingWellWidth c d =
           Some (if respond (pArcDev c) (sent (pArcDev c)) (TIM_ID, SWW, [timing]) = DON then 0 else - 1,
                 c\<lparr>pArcDev := (pArcDev c)\<lparr>sent := sent (pArcDev c) @ [(TIM_ID, SWW, [timing])]\<rparr>\<rparr>)"
  using assms
  by (simp_all add: ApplyNewPedestalIntegralWait_def ApplyNewSignalIntegralWait_def ApplyDGWidth_def
      ApplyOGWidth_def ApplySkippingRGWidth_def ApplySummingWellWidth_def Command_def)


text \<open>
  Claim C1. When the gain and speed request is answered with anything but done,
  \<open>ApplyNewIntegralTimeAndGain\<close> returns the failure at once: one request is sent and
  the result is \<open>-1\<close>.

  The procedure does not do this. Line 108 drops the result of \<open>ApplyGainAndSpeed\<close>,
  so the integration time request is always sent and its reply alone decides the result.
  With a device that answers \<open>0xDEAD\<close> to the gain and speed request and done to the
  integration time request, \<open>ApplyGainAndSpeed\<close> returns \<open>-1\<close>, yet the call for
  10.0 microseconds and gain 5 sends two requests and returns 0.
\<close>

theorem gain_failure_not_propagated:
  "fst (ApplyGainAndSpeed (controller gain_rejected) 5 0) = - 1 \<and>
   ApplyNewIntegralTimeAndGain (controller gain_rejected) d10 5 =
     Some (0, \<lparr>CCDParams = \<lparr>ItgSpeed = 0\<rparr>,
               pArcDev = \<lparr>respond = gain_rejected,
                           sent = [(TIM_ID, SGN, [5, 0]), (TIM_ID, CIT, [0x9F0000])]\<rparr>\<rparr>)"
proof -
  have t: "CalculateTiming d10 = Some 0x9F0000"
    by (simp add: CalculateTiming_eval d10_def)
  have s: "\<not> dless d10 d4_5"
    by (simp add: d10_def d4_5_def)
  have "fst (ApplyGainAndSpeed (controller gain_rejected) 5 0) = - 1"
    by (simp add: ApplyGainAndSpeed_def Command_def controller_def gain_rejected_def)
  moreover have "ApplyNewIntegralTimeAndGain (controller gain_rejected) d10 5 =
     Some (0, \<lparr>CCDParams = \<lparr>ItgSpeed = 0\<rparr>,
               pArcDev = \<lparr>respond = gain_rejected,
                           sent = [(TIM_ID, SGN, [5, 0]), (TIM_ID, CIT, [0x9F0000])]\<rparr>\<rparr>)"
    by (simp add: ApplyNewIntegralTimeAndGain_def t s ApplyGainAndSpeed_def Command_def
        controller_def gain_rejected_def)
  ultimately show ?thesis by simp
qed

text \<open>
  Claim C7. The fast integrator is selected exactly when the requested integration time
  is below 4.5 microseconds, the slow one otherwise: 4.4 selects fast and 4.5 itself
  selects slow.

  The selection is lines 105 and 106 of \<open>ApplyNewIntegralTimeAndGain\<close>; it is read off
  the field \<open>ItgSpeed\<close> after the call (1 is fast, 0 is slow), for every duration, every
  controller and every gain.
\<close>

theorem integrator_speed_selection:
  "(duration t \<longrightarrow>
      (\<exists>r c'. ApplyNewIntegralTimeAndGain c t gain = Some (r, c') \<and>
         (ItgSpeed (CCDParams c') = 1 \<longleftrightarrow> valof t < 9 / 2) \<and>
         (ItgSpeed (CCDParams c') = 0 \<longleftrightarrow> 9 / 2 \<le> valof t))) \<and>
   valof d4_4 < 9 / 2 \<and> valof d4_5 = 9 / 2 \<and>
   (\<exists>r c'. ApplyNewIntegralTimeAndGain c d4_4 gain = Some (r, c') \<and> ItgSpeed (CCDParams c') = 1) \<and>
   (\<exists>r c'. ApplyNewIntegralTimeAndGain c d4_5 gain = Some (r, c') \<and> ItgSpeed (CCDParams c') = 0)"
proof -
  have gen: "\<exists>r c'. ApplyNewIntegralTimeAndGain c t gain = Some (r, c') \<and>
         ItgSpeed (CCDParams c') = (if valof t < 9 / 2 then 1 else 0)"
    if "duration t" for t
  proof -
    from CalculateTiming_duration [OF that] obtain timing
      where t: "CalculateTiming t = Some timing" by blast
    show ?thesis
      using dless_4_5 [OF that] by (simp add: ApplyNewIntegralTimeAndGain_Some [OF t])
  qed
  have d: "duration d4_4" "duration d4_5" by (simp_all add: d4_4_def d4_5_def)
  have v: "valof d4_4 < 9 / 2" "valof d4_5 = 9 / 2" by (simp_all add: d4_4_def d4_5_def)
  have 1: "duration t \<longrightarrow>
      (\<exists>r c'. ApplyNewIntegralTimeAndGain c t gain = Some (r, c') \<and>
         (ItgSpeed (CCDParams c') = 1 \<longleftrightarrow> valof t < 9 / 2) \<and>
         (ItgSpeed (CCDParams c') = 0 \<longleftrightarrow> 9 / 2 \<le> valof t))"
    using gen [of t] by auto
  have 2: "\<exists>r c'. ApplyNewIntegralTimeAndGain c d4_4 gain = Some (r, c') \<and> ItgSpeed (CCDParams c') = 1"
    using gen [OF d(1)] v(1) by auto
  have 3: "\<exists>r c'. ApplyNewIntegralTimeAndGain c d4_5 gain = Some (r, c') \<and> ItgSpeed (CCDParams c') = 0"
    using gen [OF d(2)] v(2) by auto
  from 1 2 3 v show ?thesis by blast
qed

theorem integrator_speed_selection_witness:
  "duration d4_4 \<and> duration d4_5 \<and>
   map_option (\<lambda>(r, c'). ItgSpeed (CCDParams c'))
     (ApplyNewIntegralTimeAndGain (controller acknowledging) d4_4 5) = Some 1 \<and>
   map_option (\<lambda>(r, c'). ItgSpeed (CCDParams c'))
     (ApplyNewIntegralTimeAndGain (controller acknowledging) d4_5 5) = Some 0"
proof -
  have d: "duration d4_4" "duration d4_5" by (simp_all add: d4_4_def d4_5_def)
  have v: "valof d4_4 < 9 / 2" "valof d4_5 = 9 / 2" by (simp_all add: d4_4_def d4_5_def)
  from integrator_speed_selection [of d4_4 "controller acknowledging" 5] d(1) v(1)
  have 1: "map_option (\<lambda>(r, c'). ItgSpeed (CCDParams c'))
     (ApplyNewIntegralTimeAndGain (controller acknowledging) d4_4 5) = Some 1"
    by auto
  from integrator_speed_selection [of d4_5 "controller acknowledging" 5] d(2) v(2)
  have 2: "map_option (\<lambda>(r, c'). ItgSpeed (CCDParams c'))
     (ApplyNewIntegralTimeAndGain (controller acknowledging) d4_5 5) = Some 0"
    by auto
  from d 1 2 show ?thesis by blast
qed

text \<open>
  Claim C8. Each of the seven procedures that apply a parameter returns 0 exactly when
  the device's reply to its command is \<open>DON\<close> (\<open>0x00444F4E\<close>) and \<open>-1\<close> otherwise:
  every failure ends in this result.

  \<open>ApplyNewIntegralTimeAndGain\<close> does not keep to this. It sends two commands, and the
  reply to the first, the gain and speed command, never reaches its result: line 108
  drops what \<open>ApplyGainAndSpeed\<close> returns (the defect of claim C1). With a device that
  answers \<open>0xDEAD\<close> to the gain and speed request and done to the integration time
  request, the reply to \<open>SGN\<close> is not \<open>DON\<close>, \<open>ApplyGainAndSpeed\<close> reports \<open>-1\<close>,
  and the call for 10.0 microseconds and gain 5 returns 0.
\<close>

theorem gain_failure_lost_from_outcome:
  "respond (pArcDev (controller gain_rejected)) (sent (pArcDev (controller gain_rejected)))
     (TIM_ID, SGN, [5, 0]) = 0xDEAD \<and>
   0xDEAD \<noteq> DON \<and>
   fst (ApplyGainAndSpeed (controller gain_rejected) 5 0) = - 1 \<and>
   map_option fst (ApplyNewIntegralTimeAndGain (controller gain_rejected) d10 5) = Some 0"
proof -
  have t: "CalculateTiming d10 = Some 0x9F0000"
    by (simp add: CalculateTiming_eval d10_def)
  have r: "respond (pArcDev (controller gain_rejected)) (sent (pArcDev (controller gain_rejected)))
     (TIM_ID, SGN, [5, 0]) = 0xDEAD"
    by (simp add: controller_def gain_rejected_def)
  have g: "fst (ApplyGainAndSpeed (controller gain_rejected) 5 0) = - 1"
    by (simp add: ApplyGainAndSpeed_def Command_def controller_def gain_rejected_def)
  have a: "map_option fst (ApplyNewIntegralTimeAndGain (controller gain_rejected) d10 5) = Some 0"
    by (simp add: ApplyNewIntegralTimeAndGain_Some [OF t] controller_def gain_rejected_def)
  from r g a show ?thesis by (simp add: DON_def)
qed

text \<open>
  What the procedures do keep to, for every duration, controller and device: each call
  has a result; each of the six procedures that send one command returns 0 exactly when
  the reply to that command is \<open>DON\<close>, and \<open>-1\<close> otherwise; and when the gain and speed
  request is answered \<open>DON\<close>, \<open>ApplyNewIntegralTimeAndGain\<close> returns 0 exactly when
  the reply to the integration time request is \<open>DON\<close>, and \<open>-1\<close> otherwise.
\<close>

theorem applicators_outcome_gain_acknowledged:
  assumes "duration d"
  shows "\<exists>timing. CalculateTiming d = Some timing \<and>
     (\<exists>r this'. ApplyNewIntegralTimeAndGain c d gain = Some (r, this')) \<and>
     (respond (pArcDev c) (sent (pArcDev c))
        (TIM_ID, SGN, [gain, if dless d d4_5 then 1 else 0]) = DON \<longrightarrow>
      map_option fst (ApplyNewIntegralTimeAndGain c d gain) =
        Some (if respond (pArcDev c)
                   (sent (pArcDev c) @ [(TIM_ID, SGN, [gain, if dless d d4_5 then 1 else 0])])
                   (TIM_ID, CIT, [timing]) = DON then 0 else - 1)) \<and>
     map_option fst (ApplyNewPedestalIntegralWait c d) =
       Some (if respond (pArcDev c) (sent (pArcDev c)) (TIM_ID, CPR, [timing]) = DON then 0 else - 1) \<and>
     map_option fst (ApplyNewSignalIntegralWait c d) =
       Some (if respond (pArcDev c) (sent (pArcDev c)) (TIM_ID, CPO, [timing]) = DON then 0 else - 1) \<and>
     map_option fst (ApplyDGWidth c d) =
       Some (if respond (pArcDev c) (sent (pArcDev c)) (TIM_ID, DGW, [timing]) = DON then 0 else - 1) \<and>
     map_option fst (ApplyOGWidth c d) =
       Some (if respond (pArcDev c) (sent (pArcDev c)) (TIM_ID, OGW, [timing]) = DON then 0 else - 1) \<and>
     map_option fst (ApplySkippingRGWidth c d) =
       Some (if respond (pArcDev c) (sent (pArcDev c)) (TIM_ID, RSW, [timing]) = DON then 0 else - 1) \<and>
     map_option fst (ApplySummingWellWidth c d) =
       Some (if respond (pArcDev c) (sent (pArcDev c)) (TIM_ID, SWW, [timing]) = DON then 0 else - 1) \<and>
     DON = 0x00444F4E"
proof -
  from CalculateTiming_duration [OF assms] obtain timing
    where t: "CalculateTiming d = Some timing" by blast
  show ?thesis
    using t ApplyNewIntegralTimeAndGain_Some [OF t, of c gain] single_command_Some [OF t, of c]
    by (simp add: DON_def)
qed

text \<open>
  On a device that answers done to every request all seven return 0 at 10.0
  microseconds; on one that answers \<open>0xDEAD\<close> to every request the six procedures with
  one command return \<open>-1\<close>.
\<close>

theorem applicators_outcome_gain_acknowledged_example:
  "duration d10 \<and>
   map_option fst (ApplyNewIntegralTimeAndGain (controller acknowledging) d10 5) = Some 0 \<and>
   map_option fst (ApplyNewPedestalIntegralWait (controller acknowledging) d10) = Some 0 \<and>
   map_option fst (ApplyNewSignalIntegralWait (controller acknowledging) d10) = Some 0 \<and>
   map_option fst (ApplyDGWidth (controller acknowledging) d10) = Some 0 \<and>
   map_option fst (ApplyOGWidth (controller acknowledging) d10) = Some 0 \<and>
   map_option fst (ApplySkippingRGWidth (controller acknowledging) d10) = Some 0 \<and>
   map_option fst (ApplySummingWellWidth (controller acknowledging) d10) = Some 0 \<and>
   map_option fst (ApplyNewPedestalIntegralWait (controller rejecting) d10) = Some (- 1) \<and>
   map_option fst (ApplyNewSignalIntegralWait (controller rejecting) d10) = Some (- 1) \<and>
   map_option fst (ApplyDGWidth (controller rejecting) d10) = Some (- 1) \<and>
   map_option fst (ApplyOGWidth (controller rejecting) d10) = Some (- 1) \<and>
   map_option fst (ApplySkippingRGWidth (controller rejecting) d10) = Some (- 1) \<and>
   map_option fst (ApplySummingWellWidth (controller rejecting) d10) = Some (- 1)"
proof -
  have a: "duration d10" by (simp add: d10_def)
  from applicators_outcome_gain_acknowledged [OF a, of "controller acknowledging" 5]
  have ok: "map_option fst (ApplyNewIntegralTimeAndGain (controller acknowledging) d10 5) = Some 0 \<and>
   map_option fst (ApplyNewPedestalIntegralWait (controller acknowledging) d10) = Some 0 \<and>
   map_option fst (ApplyNewSignalIntegralWait (controller acknowledging) d10) = Some 0 \<and>
   map_option fst (ApplyDGWidth (controller acknowledging) d10) = Some 0 \<and>
   map_option fst (ApplyOGWidth (controller acknowledging) d10) = Some 0 \<and>
   map_option fst (ApplySkippingRGWidth (controller acknowledging) d10) = Some 0 \<and>
   map_option fst (ApplySummingWellWidth (controller acknowledging) d10) = Some 0"
    by (auto simp: controller_def acknowledging_def DON_def)
  from applicators_outcome_gain_acknowledged [OF a, of "controller rejecting" 5]
  have bad: "map_option fst (ApplyNewPedestalIntegralWait (controller rejecting) d10) = Some (- 1) \<and>
   map_option fst (ApplyNewSignalIntegralWait (controller rejecting) d10) = Some (- 1) \<and>
   map_option fst (ApplyDGWidth (controller rejecting) d10) = Some (- 1) \<and>
   map_option fst (ApplyOGWidth (controller rejecting) d10) = Some (- 1) \<and>
   map_option fst (ApplySkippingRGWidth (controller rejecting) d10) = Some (- 1) \<and>
   map_option fst (ApplySummingWellWidth (controller rejecting) d10) = Some (- 1)"
    by (auto simp: controller_def rejecting_def DON_def)
  from a ok bad show ?thesis by blast
qed

text \<open>
  Claim C9. After every call of \<open>ApplyNewIntegralTimeAndGain\<close>, whatever its result,
  the field \<open>ItgSpeed\<close> is 1 if the integration time is below 4.5 microseconds and 0
  otherwise, and this value goes to the device in the gain and speed command, before the
  integration time command.
\<close>

theorem speed_mode_stored_and_sent_first:
  assumes "duration t"
  shows "\<exists>r c' timing.
           ApplyNewIntegralTimeAndGain c t gain = Some (r, c') \<and>
           CalculateTiming t = Some timing \<and>
           ItgSpeed (CCDParams c') = (if valof t < 9 / 2 then 1 else 0) \<and>
           sent (pArcDev c') = sent (pArcDev c) @
             [(TIM_ID, SGN, [gain, ItgSpeed (CCDParams c')]), (TIM_ID, CIT, [timing])]"
proof -
  from CalculateTiming_duration [OF assms] obtain timing
    where t: "CalculateTiming t = Some timing" by blast
  show ?thesis
    using t dless_4_5 [OF assms]
    by (simp add: ApplyNewIntegralTimeAndGain_Some [OF t])
qed

theorem speed_mode_stored_and_sent_first_witness:
  "duration d4_4 \<and> duration d10 \<and>
   (\<exists>r c' timing.
      ApplyNewIntegralTimeAndGain (controller rejecting) d4_4 5 = Some (r, c') \<and>
      r = - 1 \<and> ItgSpeed (CCDParams c') = 1 \<and>
      sent (pArcDev c') = [(TIM_ID, SGN, [5, 1]), (TIM_ID, CIT, [timing])]) \<and>
   (\<exists>r c'.
      ApplyNewIntegralTimeAndGain (controller acknowledging) d10 5 = Some (r, c') \<and>
      r = 0 \<and> ItgSpeed (CCDParams c') = 0 \<and>
      sent (pArcDev c') = [(TIM_ID, SGN, [5, 0]), (TIM_ID, CIT, [0x9F0000])])"
proof -
  have a: "duration d4_4" "duration d10" by (simp_all add: d4_4_def d10_def)
  have v: "valof d4_4 < 9 / 2" "\<not> valof d10 < 9 / 2" by (simp_all add: d4_4_def d10_def)
  have t: "CalculateTiming d10 = Some 0x9F0000" by (simp add: CalculateTiming_eval d10_def)
  from speed_mode_stored_and_sent_first [OF a(1), of "controller rejecting" 5] v(1)
  obtain r c' timing where 1:
      "ApplyNewIntegralTimeAndGain (controller rejecting) d4_4 5 = Some (r, c')"
      "CalculateTiming d4_4 = Some timing"
      "ItgSpeed (CCDParams c') = 1"
      "sent (pArcDev c') = [(TIM_ID, SGN, [5, 1]), (TIM_ID, CIT, [timing])]"
    by (auto simp: controller_def)
  have "r = - 1"
    using 1(1) by (simp add: ApplyNewIntegralTimeAndGain_Some [OF 1(2)] controller_def rejecting_def)
  with 1 have A: "\<exists>r c' timing.
      ApplyNewIntegralTimeAndGain (controller rejecting) d4_4 5 = Some (r, c') \<and>
      r = - 1 \<and> ItgSpeed (CCDParams c') = 1 \<and>
      sent (pArcDev c') = [(TIM_ID, SGN, [5, 1]), (TIM_ID, CIT, [timing])]" by blast
  from speed_mode_stored_and_sent_first [OF a(2), of "controller acknowledging" 5] v(2) t
  obtain r c' where 2:
      "ApplyNewIntegralTimeAndGain (controller acknowledging) d10 5 = Some (r, c')"
      "ItgSpeed (CCDParams c') = 0"
      "sent (pArcDev c') = [(TIM_ID, SGN, [5, 0]), (TIM_ID, CIT, [0x9F0000])]"
    by (auto simp: controller_def)
  have "r = 0"
    using 2(1) by (simp add: ApplyNewIntegralTimeAndGain_Some [OF t] controller_def acknowledging_def)
  with 2 have B: "\<exists>r c'.
      ApplyNewIntegralTimeAndGain (controller acknowledging) d10 5 = Some (r, c') \<and>
      r = 0 \<and> ItgSpeed (CCDParams c') = 0 \<and>
      sent (pArcDev c') = [(TIM_ID, SGN, [5, 0]), (TIM_ID, CIT, [0x9F0000])]" by blast
  from a A B show ?thesis by blast
qed

end
